theory Spec2Isabelle
  imports Main "HOL-Library.Word"
begin

section \<open>Types and constants of piccolo\_os\_lock\_core\_v1.1.h\<close>

text \<open>
  The header overrides four hooks of the Pico SDK's lock core with macros. Each macro
  names one function that the header only declares
  (\<open>piccolo_get_task_id\<close>, \<open>piccolo_lock_wait\<close>, \<open>piccolo_lock_wait_until\<close>,
  \<open>piccolo_lock_yield\<close>), two of them after a call of the SDK's \<open>spin_unlock\<close>.

  \<open>lock_owner_id_t\<close> is \<open>int8_t\<close> (line 36): an 8-bit word, read as signed by \<open>sint\<close>.
  \<open>absolute_time_t\<close> is the SDK's 64-bit count of microseconds since boot.
\<close>

type_synonym lock_owner_id_t = "8 word"

type_synonym absolute_time_t = "64 word"

text \<open>
  The C cast \<open>(lock_owner_id_t) e\<close> of an integer expression of value \<open>v\<close>: the value
  is reduced modulo \<open>2 ^ 8\<close> and the 8 bits are read as two's complement.
\<close>

definition cast_lock_owner_id_t :: "int \<Rightarrow> lock_owner_id_t" where
  "cast_lock_owner_id_t v = word_of_int v"

text \<open>Line 43: \<open>#define LOCK_INVALID_OWNER_ID ((lock_owner_id_t)-1)\<close>.\<close>

definition LOCK_INVALID_OWNER_ID :: lock_owner_id_t where
  "LOCK_INVALID_OWNER_ID = cast_lock_owner_id_t (- 1)"

text \<open>
  The macros read one field of the SDK's \<open>lock_core\<close>: \<open>(lock)->spin_lock\<close>, the
  hardware spin lock of the primitive, identified here by its number.
\<close>

record lock_core =
  spin_lock :: nat

section \<open>The machine the macros run on\<close>

text \<open>
  The processor has two cores; \<open>get_core_num\<close> is the number the SDK reports for each.
\<close>

datatype core = Core0 | Core1

fun get_core_num :: "core \<Rightarrow> int" where
  "get_core_num Core0 = 0"
| "get_core_num Core1 = 1"

text \<open>
  The state outside the header: the hardware spin locks that are currently claimed, the
  interrupt mask register \<open>PRIMASK\<close>, the executing core, and the scheduler's state
  (whether it is running, and the identifier of the task it has scheduled).
\<close>

record machine =
  spin_locks :: "nat set"
  primask :: "32 word"
  core :: core
  scheduler_active :: bool
  current_task :: lock_owner_id_t

text \<open>
  Every function call a macro expands to is recorded, in order, with its arguments.
  The called function itself never sees this record: it acts on the machine only.
\<close>

datatype call =
  Call_spin_unlock nat "32 word"
| Call_piccolo_get_task_id
| Call_piccolo_lock_wait
| Call_piccolo_lock_wait_until absolute_time_t
| Call_piccolo_lock_yield

record world =
  calls :: "call list"
  mach :: machine

text \<open>
  Modelled from the spec: \<open>spin_unlock\<close> belongs to the SDK; the header calls it and
  does not define it.
  The header's comment calls its second argument "the PRIMASK state when the spin lock
  was acquired"; the spec's spin lock is an atomic flag taken with interrupts disabled.
  Releasing clears the flag of lock \<open>l\<close>, whoever set it, and restores the saved
  interrupt state.
\<close>

definition spin_unlock :: "nat \<Rightarrow> 32 word \<Rightarrow> world \<Rightarrow> world" where
  "spin_unlock l saved_irq w =
     \<lparr>calls = calls w @ [Call_spin_unlock l saved_irq],
      mach = (mach w)\<lparr>spin_locks := spin_locks (mach w) - {l}, primask := saved_irq\<rparr>\<rparr>"

section \<open>Calls of the declared functions\<close>

text \<open>
  Lines 51 to 54 declare four functions and define none of them. A call is modelled
  for any body: the body is a parameter, a function on the machine. The call records
  itself and then runs the body.

  \<open>piccolo_get_task_id\<close> is declared with result type \<open>lock_owner_id_t\<close>: whatever
  integer its body returns is converted to that type on return.
\<close>

definition call_piccolo_get_task_id ::
  "(machine \<Rightarrow> int \<times> machine) \<Rightarrow> world \<Rightarrow> lock_owner_id_t \<times> world" where
  "call_piccolo_get_task_id body w =
     (case body (mach w) of
        (v, m) \<Rightarrow> (cast_lock_owner_id_t v,
                   \<lparr>calls = calls w @ [Call_piccolo_get_task_id], mach = m\<rparr>))"

definition call_piccolo_lock_wait :: "(machine \<Rightarrow> machine) \<Rightarrow> world \<Rightarrow> world" where
  "call_piccolo_lock_wait body w =
     \<lparr>calls = calls w @ [Call_piccolo_lock_wait], mach = body (mach w)\<rparr>"

definition call_piccolo_lock_wait_until ::
  "(absolute_time_t \<Rightarrow> machine \<Rightarrow> bool \<times> machine) \<Rightarrow> absolute_time_t \<Rightarrow> world \<Rightarrow> bool \<times> world" where
  "call_piccolo_lock_wait_until body timeout_timestamp w =
     (case body timeout_timestamp (mach w) of
        (timed_out, m) \<Rightarrow>
          (timed_out,
           \<lparr>calls = calls w @ [Call_piccolo_lock_wait_until timeout_timestamp], mach = m\<rparr>))"

definition call_piccolo_lock_yield :: "(machine \<Rightarrow> machine) \<Rightarrow> world \<Rightarrow> world" where
  "call_piccolo_lock_yield body w =
     \<lparr>calls = calls w @ [Call_piccolo_lock_yield], mach = body (mach w)\<rparr>"

section \<open>The four macros\<close>

text \<open>
  Line 69: \<open>((lock_owner_id_t) piccolo_get_task_id())\<close>. The cast is applied to the
  value of the call, which already has type \<open>lock_owner_id_t\<close>.
\<close>

definition lock_get_caller_owner_id ::
  "(machine \<Rightarrow> int \<times> machine) \<Rightarrow> world \<Rightarrow> lock_owner_id_t \<times> world" where
  "lock_get_caller_owner_id get_task_id w =
     (case call_piccolo_get_task_id get_task_id w of
        (r, w') \<Rightarrow> (cast_lock_owner_id_t (sint r), w'))"

text \<open>
  Line 98: \<open>({spin_unlock((lock)->spin_lock, save);piccolo_lock_wait();})\<close>.
\<close>

definition lock_internal_spin_unlock_with_wait ::
  "(machine \<Rightarrow> machine) \<Rightarrow> lock_core \<Rightarrow> 32 word \<Rightarrow> world \<Rightarrow> world" where
  "lock_internal_spin_unlock_with_wait lock_wait lock save w =
     call_piccolo_lock_wait lock_wait (spin_unlock (spin_lock lock) save w)"

text \<open>
  Lines 126 to 128:
  \<open>({ spin_unlock((lock)->spin_lock,save); piccolo_lock_wait_until(until); })\<close>.
  The value of the statement expression is the value of its last expression, the
  result of \<open>piccolo_lock_wait_until\<close>.
\<close>

definition lock_internal_spin_unlock_with_best_effort_wait_or_timeout ::
  "(absolute_time_t \<Rightarrow> machine \<Rightarrow> bool \<times> machine) \<Rightarrow>
     lock_core \<Rightarrow> 32 word \<Rightarrow> absolute_time_t \<Rightarrow> world \<Rightarrow> bool \<times> world" where
  "lock_internal_spin_unlock_with_best_effort_wait_or_timeout lock_wait_until lock save until w =
     call_piccolo_lock_wait_until lock_wait_until until (spin_unlock (spin_lock lock) save w)"

subsection \<open>Line 146, as it is written\<close>

text \<open>
  Line 146: \<open>#define sync_internal_yield_until_before(until) (piccolo_lock_yield();)\<close>.
  The replacement text puts a statement, with its semicolon, between plain parentheses.
  The two macros above wrap their statements in \<open>({\<close> and \<open>})\<close>, a statement
  expression; this one has no braces. The replacement texts are kept as the tokens the
  header has, so that the difference is computed and not assumed.
\<close>

datatype token = LPAREN | RPAREN | LBRACE | RBRACE | SEMI | COMMA | ARROW | IDENT string

definition line_69 :: "token list" where
  "line_69 =
     [LPAREN, LPAREN, IDENT ''lock_owner_id_t'', RPAREN,
      IDENT ''piccolo_get_task_id'', LPAREN, RPAREN, RPAREN]"

definition line_98 :: "token list" where
  "line_98 =
     [LPAREN, LBRACE,
      IDENT ''spin_unlock'', LPAREN, LPAREN, IDENT ''lock'', RPAREN, ARROW,
      IDENT ''spin_lock'', COMMA, IDENT ''save'', RPAREN, SEMI,
      IDENT ''piccolo_lock_wait'', LPAREN, RPAREN, SEMI,
      RBRACE, RPAREN]"

definition line_126 :: "token list" where
  "line_126 =
     [LPAREN, LBRACE,
      IDENT ''spin_unlock'', LPAREN, LPAREN, IDENT ''lock'', RPAREN, ARROW,
      IDENT ''spin_lock'', COMMA, IDENT ''save'', RPAREN, SEMI,
      IDENT ''piccolo_lock_wait_until'', LPAREN, IDENT ''until'', RPAREN, SEMI,
      RBRACE, RPAREN]"

definition line_146 :: "token list" where
  "line_146 = [LPAREN, IDENT ''piccolo_lock_yield'', LPAREN, RPAREN, SEMI, RPAREN]"

text \<open>
  What stands between \<open>(\<close> and \<open>)\<close> in a C expression is an expression, a type name
  or an argument list, and none of them contains a semicolon; statements stand between
  \<open>{\<close> and \<open>}\<close>. \<open>brackets_ok\<close> reads the tokens with the brackets that are open,
  the innermost first: every bracket is closed by its own kind, and no semicolon has a
  parenthesis as its innermost open bracket.
\<close>

datatype bracket = Paren | Brace

fun brackets_ok :: "bracket list \<Rightarrow> token list \<Rightarrow> bool" where
  "brackets_ok opn [] = (opn = [])"
| "brackets_ok opn (LPAREN # ts) = brackets_ok (Paren # opn) ts"
| "brackets_ok opn (LBRACE # ts) = brackets_ok (Brace # opn) ts"
| "brackets_ok opn (RPAREN # ts) =
     (case opn of Paren # rest \<Rightarrow> brackets_ok rest ts | _ \<Rightarrow> False)"
| "brackets_ok opn (RBRACE # ts) =
     (case opn of Brace # rest \<Rightarrow> brackets_ok rest ts | _ \<Rightarrow> False)"
| "brackets_ok opn (SEMI # ts) =
     (case opn of Paren # rest \<Rightarrow> False | _ \<Rightarrow> brackets_ok opn ts)"
| "brackets_ok opn (COMMA # ts) = brackets_ok opn ts"
| "brackets_ok opn (ARROW # ts) = brackets_ok opn ts"
| "brackets_ok opn (IDENT x # ts) = brackets_ok opn ts"

text \<open>
  A use of the macro is its replacement text in the place of an expression. Where that
  text is no expression the translation unit is refused, and nothing runs: no call of
  \<open>piccolo_lock_yield\<close> is made. Only a well-formed text would make the call.
\<close>

datatype compile_error = Syntax_error

definition sync_internal_yield_until_before ::
  "(machine \<Rightarrow> machine) \<Rightarrow> absolute_time_t \<Rightarrow> world \<Rightarrow> compile_error + world" where
  "sync_internal_yield_until_before lock_yield until w =
     (if brackets_ok [] line_146 then Inr (call_piccolo_lock_yield lock_yield w)
      else Inl Syntax_error)"

section \<open>The owner identity resolver\<close>

text \<open>
  Modelled from the spec: the body of \<open>piccolo_get_task_id\<close> is missing; the
  header declares the function and says of the macro "For Piccolo OS, return the task
  ID if the scheduler is running. Otherwise, return the core number." The spec's
  resolver: "If Scheduler Presence is active, returns the identifier of the currently
  scheduled task. Otherwise, returns the identifier of the current hardware core", and
  "Side effect: none" (a pure read). The scheduler's task identifier is an owner id
  (the spec's \<open>current_task_id() -> OwnerId\<close>).
\<close>

definition piccolo_get_task_id :: "machine \<Rightarrow> int \<times> machine" where
  "piccolo_get_task_id m =
     (if scheduler_active m then sint (current_task m) else get_core_num (core m), m)"

section \<open>A concrete world\<close>

text \<open>
  Core 0 before the scheduler has started, holding hardware spin lock 3 with interrupts
  masked. No task is scheduled yet.
\<close>

definition held_world :: world where
  "held_world =
     \<lparr>calls = [],
      mach = \<lparr>spin_locks = {3}, primask = 0, core = Core0, scheduler_active = False,
              current_task = LOCK_INVALID_OWNER_ID\<rparr>\<rparr>"

section \<open>Unlock, then wait\<close>

text \<open>The calls in a list that release a spin lock.\<close>

fun is_spin_unlock :: "call \<Rightarrow> bool" where
  "is_spin_unlock (Call_spin_unlock l s) = True"
| "is_spin_unlock c = False"

lemma spin_unlock_calls: "calls (spin_unlock l save w) = calls w @ [Call_spin_unlock l save]"
  by (simp add: spin_unlock_def)

text \<open>
  C3. If the caller holds the spin lock of \<open>lock\<close>, then
  \<open>lock_internal_spin_unlock_with_wait(lock, save)\<close> makes exactly two calls, in this
  order: \<open>spin_unlock((lock)->spin_lock, save)\<close> and then \<open>piccolo_lock_wait()\<close>.
  The release happens once, and \<open>piccolo_lock_wait\<close>, whatever its body, starts on
  the machine in which the spin lock is already free and \<open>save\<close> is restored.
\<close>

theorem unlock_then_wait:
  assumes held: "spin_lock lock \<in> spin_locks (mach w)"
  shows "calls (lock_internal_spin_unlock_with_wait lock_wait lock save w) =
           calls w @ [Call_spin_unlock (spin_lock lock) save, Call_piccolo_lock_wait]
       \<and> filter is_spin_unlock
           (drop (length (calls w))
              (calls (lock_internal_spin_unlock_with_wait lock_wait lock save w))) =
           [Call_spin_unlock (spin_lock lock) save]
       \<and> mach (lock_internal_spin_unlock_with_wait lock_wait lock save w) =
           lock_wait
             ((mach w)\<lparr>spin_locks := spin_locks (mach w) - {spin_lock lock}, primask := save\<rparr>)
       \<and> spin_lock lock \<notin>
           spin_locks
             ((mach w)\<lparr>spin_locks := spin_locks (mach w) - {spin_lock lock}, primask := save\<rparr>)"
proof -
  let ?w1 = "spin_unlock (spin_lock lock) save w"
  have step1: "calls ?w1 = calls w @ [Call_spin_unlock (spin_lock lock) save]"
    by (rule spin_unlock_calls)
  have step2: "calls (call_piccolo_lock_wait lock_wait ?w1) = calls ?w1 @ [Call_piccolo_lock_wait]"
    by (simp add: call_piccolo_lock_wait_def)
  have tr: "calls (lock_internal_spin_unlock_with_wait lock_wait lock save w) =
      calls w @ [Call_spin_unlock (spin_lock lock) save, Call_piccolo_lock_wait]"
    unfolding lock_internal_spin_unlock_with_wait_def using step1 step2 by simp
  have once: "filter is_spin_unlock
      (drop (length (calls w))
         (calls (lock_internal_spin_unlock_with_wait lock_wait lock save w))) =
      [Call_spin_unlock (spin_lock lock) save]"
    by (simp add: tr)
  have st: "mach (lock_internal_spin_unlock_with_wait lock_wait lock save w) =
      lock_wait
        ((mach w)\<lparr>spin_locks := spin_locks (mach w) - {spin_lock lock}, primask := save\<rparr>)"
    by (simp add: lock_internal_spin_unlock_with_wait_def call_piccolo_lock_wait_def
        spin_unlock_def)
  from tr once st show ?thesis by simp
qed

text \<open>
  On \<open>held_world\<close>, with a wait that returns at once (the header allows a return at
  any point): the two calls, the lock free and the interrupt state restored.
\<close>

theorem unlock_then_wait_witness:
  "spin_lock \<lparr>spin_lock = 3\<rparr> \<in> spin_locks (mach held_world)
   \<and> calls (lock_internal_spin_unlock_with_wait (\<lambda>m. m) \<lparr>spin_lock = 3\<rparr> 1 held_world) =
       [Call_spin_unlock 3 1, Call_piccolo_lock_wait]
   \<and> spin_locks
       (mach (lock_internal_spin_unlock_with_wait (\<lambda>m. m) \<lparr>spin_lock = 3\<rparr> 1 held_world)) = {}
   \<and> primask
       (mach (lock_internal_spin_unlock_with_wait (\<lambda>m. m) \<lparr>spin_lock = 3\<rparr> 1 held_world)) = 1"
proof -
  have held: "spin_lock \<lparr>spin_lock = 3\<rparr> \<in> spin_locks (mach held_world)"
    by (simp add: held_world_def)
  show ?thesis
    using held unlock_then_wait [OF held, of "\<lambda>m. m" 1]
    by (simp add: held_world_def)
qed

text \<open>
  The timed variant has the same shape: the release, then one call of
  \<open>piccolo_lock_wait_until\<close> with the deadline it was given; its value is the flag
  that call returns, passed on unchanged.
\<close>

lemma unlock_then_wait_until:
  "lock_internal_spin_unlock_with_best_effort_wait_or_timeout lock_wait_until lock save until w =
     (fst (lock_wait_until until (mach (spin_unlock (spin_lock lock) save w))),
      \<lparr>calls = calls w @
         [Call_spin_unlock (spin_lock lock) save, Call_piccolo_lock_wait_until until],
       mach = snd (lock_wait_until until (mach (spin_unlock (spin_lock lock) save w)))\<rparr>)"
  by (simp add: lock_internal_spin_unlock_with_best_effort_wait_or_timeout_def
      call_piccolo_lock_wait_until_def case_prod_beta spin_unlock_calls)

section \<open>The yield hook does not compile\<close>

text \<open>
  The replacement texts of lines 69, 98 and 126 pass the check: their semicolons stand
  between braces.
\<close>

lemma sibling_macros_are_expressions:
  "brackets_ok [] line_69 \<and> brackets_ok [] line_98 \<and> brackets_ok [] line_126"
  by (simp add: line_69_def line_98_def line_126_def)

text \<open>Line 146 does not: its semicolon stands directly inside the parentheses.\<close>

lemma line_146_is_no_expression: "\<not> brackets_ok [] line_146"
  by (simp add: line_146_def)

text \<open>The parameter \<open>until\<close> does not occur in the replacement text of line 146.\<close>

lemma until_not_in_line_146: "IDENT ''until'' \<notin> set line_146"
  by (simp add: line_146_def)

text \<open>
  C9. The claim: \<open>sync_internal_yield_until_before(u1)\<close> and
  \<open>sync_internal_yield_until_before(u2)\<close> behave identically, since the macro expands
  to a call of the zero-argument \<open>piccolo_lock_yield()\<close> and never reads \<open>until\<close>.
  The code: the macro expands to \<open>(piccolo_lock_yield();)\<close>, which is not an
  expression, so every use, with any deadline, any body of \<open>piccolo_lock_yield\<close> and
  in any world, is a syntax error and makes no call.
\<close>

theorem yield_macro_does_not_compile:
  "sync_internal_yield_until_before lock_yield until w = Inl Syntax_error"
  unfolding sync_internal_yield_until_before_def
  using line_146_is_no_expression by simp

section \<open>The owner id is eight bits wide\<close>

lemma cast_lock_owner_id_t_sint: "cast_lock_owner_id_t (sint r) = r"
  by (simp add: cast_lock_owner_id_t_def)

lemma sint_cast_lock_owner_id_t: "sint (cast_lock_owner_id_t v) = (v + 128) mod 256 - 128"
  by (simp add: cast_lock_owner_id_t_def int_word_sint)

lemma lock_get_caller_owner_id_value:
  "fst (lock_get_caller_owner_id body w) = cast_lock_owner_id_t (fst (body (mach w)))"
  by (simp add: lock_get_caller_owner_id_def call_piccolo_get_task_id_def
      cast_lock_owner_id_t_sint split: prod.splits)

lemma cast_minus_one:
  assumes m: "v mod 256 = 255"
  shows "cast_lock_owner_id_t v = LOCK_INVALID_OWNER_ID"
proof -
  have "take_bit 8 v = take_bit 8 (- 1 :: int)"
    using m by (simp add: take_bit_eq_mod)
  then have "(word_of_int v :: 8 word) = word_of_int (- 1)"
    by (simp only: word_of_int_eq_iff) simp
  then show ?thesis
    by (simp add: cast_lock_owner_id_t_def LOCK_INVALID_OWNER_ID_def)
qed

text \<open>
  C10. With the default definitions \<open>lock_owner_id_t\<close> is \<open>int8_t\<close>, and
  \<open>lock_get_caller_owner_id()\<close> is the task id that \<open>piccolo_get_task_id\<close> returns,
  cast to \<open>int8_t\<close>: the id reduced modulo \<open>2 ^ 8\<close> and read as a signed 8-bit value.
  A task id congruent to \<open>-1\<close> modulo 256, such as 255, comes back as
  \<open>LOCK_INVALID_OWNER_ID\<close>, which is \<open>(lock_owner_id_t)-1\<close>, that is \<open>-1\<close>.
\<close>

theorem owner_id_is_task_id_mod_256:
  "fst (lock_get_caller_owner_id body w) = cast_lock_owner_id_t (fst (body (mach w)))
   \<and> sint (fst (lock_get_caller_owner_id body w)) = (fst (body (mach w)) + 128) mod 256 - 128
   \<and> (fst (body (mach w)) mod 256 = 255 \<longrightarrow>
        fst (lock_get_caller_owner_id body w) = LOCK_INVALID_OWNER_ID)
   \<and> sint LOCK_INVALID_OWNER_ID = - 1"
proof (intro conjI impI)
  show "fst (lock_get_caller_owner_id body w) = cast_lock_owner_id_t (fst (body (mach w)))"
    by (rule lock_get_caller_owner_id_value)
next
  show "sint (fst (lock_get_caller_owner_id body w)) = (fst (body (mach w)) + 128) mod 256 - 128"
    by (simp only: lock_get_caller_owner_id_value sint_cast_lock_owner_id_t)
next
  assume "fst (body (mach w)) mod 256 = 255"
  then show "fst (lock_get_caller_owner_id body w) = LOCK_INVALID_OWNER_ID"
    by (simp only: lock_get_caller_owner_id_value cast_minus_one)
next
  show "sint LOCK_INVALID_OWNER_ID = - 1"
    by (simp add: LOCK_INVALID_OWNER_ID_def cast_lock_owner_id_t_def)
qed

text \<open>A body that returns task id 255: the caller's owner id is the sentinel.\<close>

theorem owner_id_is_task_id_mod_256_witness:
  "(255 :: int) mod 256 = 255
   \<and> fst (lock_get_caller_owner_id (\<lambda>m. (255, m)) held_world) = LOCK_INVALID_OWNER_ID
   \<and> sint (fst (lock_get_caller_owner_id (\<lambda>m. (255, m)) held_world)) = - 1"
proof -
  note t = owner_id_is_task_id_mod_256 [of "\<lambda>m. (255, m)" held_world]
  have task: "fst ((\<lambda>m. (255 :: int, m)) (mach held_world)) mod 256 = 255"
    by simp
  from t task
  have sentinel: "fst (lock_get_caller_owner_id (\<lambda>m. (255, m)) held_world) = LOCK_INVALID_OWNER_ID"
    by blast
  from t have "sint LOCK_INVALID_OWNER_ID = - 1"
    by blast
  with sentinel show ?thesis
    by simp
qed

section \<open>Resolving the caller's owner id\<close>

lemma cast_core_num: "sint (cast_lock_owner_id_t (get_core_num c)) = get_core_num c"
  by (cases c) (simp_all add: cast_lock_owner_id_t_def)

text \<open>
  C4. \<open>lock_get_caller_owner_id()\<close> returns the identifier of the currently scheduled
  task if the scheduler is active, and the number of the current core otherwise.
  Core 0 calling before the scheduler is activated gets 0; the same call after
  activation, while task 7 runs, gets 7.
\<close>

theorem owner_id_resolution:
  "(scheduler_active (mach w) \<longrightarrow>
      fst (lock_get_caller_owner_id piccolo_get_task_id w) = current_task (mach w))
   \<and> (\<not> scheduler_active (mach w) \<longrightarrow>
      sint (fst (lock_get_caller_owner_id piccolo_get_task_id w)) = get_core_num (core (mach w)))"
proof (intro conjI impI)
  assume "scheduler_active (mach w)"
  then have "fst (piccolo_get_task_id (mach w)) = sint (current_task (mach w))"
    by (simp add: piccolo_get_task_id_def)
  then show "fst (lock_get_caller_owner_id piccolo_get_task_id w) = current_task (mach w)"
    by (simp only: lock_get_caller_owner_id_value cast_lock_owner_id_t_sint)
next
  assume "\<not> scheduler_active (mach w)"
  then have "fst (piccolo_get_task_id (mach w)) = get_core_num (core (mach w))"
    by (simp add: piccolo_get_task_id_def)
  then show "sint (fst (lock_get_caller_owner_id piccolo_get_task_id w)) =
      get_core_num (core (mach w))"
    by (simp only: lock_get_caller_owner_id_value cast_core_num)
qed

text \<open>
  The scenario: the first call on \<open>held_world\<close> (core 0, scheduler inactive); then the
  scheduler is activated and schedules task 7, and the call is made again.
\<close>

theorem owner_id_resolution_witness:
  "\<not> scheduler_active (mach held_world)
   \<and> sint (fst (lock_get_caller_owner_id piccolo_get_task_id held_world)) = 0
   \<and> scheduler_active
       (mach ((snd (lock_get_caller_owner_id piccolo_get_task_id held_world))
          \<lparr>mach := (mach held_world)\<lparr>scheduler_active := True, current_task := 7\<rparr>\<rparr>))
   \<and> fst (lock_get_caller_owner_id piccolo_get_task_id
         ((snd (lock_get_caller_owner_id piccolo_get_task_id held_world))
            \<lparr>mach := (mach held_world)\<lparr>scheduler_active := True, current_task := 7\<rparr>\<rparr>)) = 7"
proof -
  let ?w1 = "snd (lock_get_caller_owner_id piccolo_get_task_id held_world)"
  let ?w2 = "?w1\<lparr>mach := (mach held_world)\<lparr>scheduler_active := True, current_task := 7\<rparr>\<rparr>"
  have inactive: "\<not> scheduler_active (mach held_world)"
    by (simp add: held_world_def)
  have core0: "get_core_num (core (mach held_world)) = 0"
    by (simp add: held_world_def)
  have active: "scheduler_active (mach ?w2)"
    by simp
  have task7: "current_task (mach ?w2) = 7"
    by simp
  from owner_id_resolution [of held_world] inactive core0
  have first: "sint (fst (lock_get_caller_owner_id piccolo_get_task_id held_world)) = 0"
    by simp
  from owner_id_resolution [of ?w2] active task7
  have second: "fst (lock_get_caller_owner_id piccolo_get_task_id ?w2) = 7"
    by simp
  from inactive first active second show ?thesis
    by blast
qed

text \<open>
  C8. Every call of \<open>lock_get_caller_owner_id()\<close> returns an owner id and leaves the
  machine as it was: it makes the one call of \<open>piccolo_get_task_id\<close>, no call that
  takes or releases a spin lock and none that waits or yields, and the claimed spin
  locks, the interrupt state and the scheduler's state are unchanged. It can
  therefore be used inside a spin lock critical section.
\<close>

theorem owner_id_lookup_is_pure:
  "lock_get_caller_owner_id piccolo_get_task_id w =
     (cast_lock_owner_id_t (fst (piccolo_get_task_id (mach w))),
      \<lparr>calls = calls w @ [Call_piccolo_get_task_id], mach = mach w\<rparr>)
   \<and> spin_locks (mach (snd (lock_get_caller_owner_id piccolo_get_task_id w))) =
       spin_locks (mach w)"
proof -
  have same: "snd (piccolo_get_task_id (mach w)) = mach w"
    by (simp add: piccolo_get_task_id_def)
  have call: "call_piccolo_get_task_id piccolo_get_task_id w =
      (cast_lock_owner_id_t (fst (piccolo_get_task_id (mach w))),
       \<lparr>calls = calls w @ [Call_piccolo_get_task_id], mach = mach w\<rparr>)"
    using same by (simp add: call_piccolo_get_task_id_def case_prod_beta)
  have "lock_get_caller_owner_id piccolo_get_task_id w =
      (cast_lock_owner_id_t (fst (piccolo_get_task_id (mach w))),
       \<lparr>calls = calls w @ [Call_piccolo_get_task_id], mach = mach w\<rparr>)"
    by (simp add: lock_get_caller_owner_id_def call cast_lock_owner_id_t_sint)
  then show ?thesis
    by simp
qed

end
